theory Spec2Isabelle
  imports Main "HOL-Library.Sublist"
begin

section \<open>The Mininet topology script \<^verbatim>\<open>mininet/topology.py\<close>\<close>

text \<open>
  The script is one function, \<^verbatim>\<open>createTopology\<close>: a straight line of calls into the
  operating system (\<^verbatim>\<open>os.environ.get\<close>) and into the Mininet library (\<^verbatim>\<open>info\<close>,
  \<^verbatim>\<open>Mininet\<close>, \<^verbatim>\<open>net.addController\<close>, \<^verbatim>\<open>net.addSwitch\<close>, ...). It has no branch,
  no loop and no exception handler of its own. What it does is the sequence of calls
  it makes and the arguments it passes, so the model threads the list of calls made so
  far through every statement, in the order of the source. The module's main block
  sets the log level and calls \<^verbatim>\<open>createTopology\<close>, nothing else.

  A call into the library may never return: the wait for the controller and the
  interactive prompt are the two the spec names. The run then ends blocked in that call,
  with the calls made so far. An exception that the library raises is not a branch of
  the script (it catches none) and is not modelled.
\<close>

subsection \<open>Data\<close>

text \<open>\<^verbatim>\<open>os.environ\<close>: a dictionary from variable names to strings.\<close>

type_synonym environ = "string \<rightharpoonup> string"

text \<open>The library classes the script passes as arguments.\<close>

datatype pyclass = RemoteController | OVSKernelSwitch | TCLink

text \<open>
  The node object that \<^verbatim>\<open>net.addSwitch\<close> and \<^verbatim>\<open>net.addHost\<close> return and that
  \<^verbatim>\<open>net.addLink\<close> takes: it is known by the name it was created with.
\<close>

datatype node = Node (node_name: string)

text \<open>
  One constructor per call the script makes, with the arguments of the call
  (keyword arguments in the order the source writes them).
\<close>

datatype call =
    EnvironGet string string
  | Info string
  | MininetInit "pyclass option" pyclass pyclass bool
  | AddController string pyclass string int
  | AddSwitch string pyclass string
  | AddHost string string string
  | AddLink node node pyclass int string
  | Start
  | WaitConnected "nat option"
  | PingAll
  | CLIRun
  | Stop

type_synonym trace = "call list"

text \<open>
  What the script cannot decide and the outside world does: at which polling round a
  switch reports a session with the controller, how many host pairs the reachability
  probe loses, and whether the operator ever leaves the interactive prompt.
\<close>

record library =
  connected :: "nat \<Rightarrow> string \<Rightarrow> bool"
  ping_lost :: nat
  cli_exits :: bool

text \<open>How a run of the script ends, and the calls it made until then.\<close>

datatype outcome = Returned | Blocked

record run =
  calls :: trace
  outcome :: outcome

subsection \<open>The calls\<close>

text \<open>\<^verbatim>\<open>os.environ.get(key, default)\<close>\<close>

definition environ_get :: "environ \<Rightarrow> string \<Rightarrow> string \<Rightarrow> trace \<Rightarrow> string \<times> trace" where
  "environ_get env key dflt tr =
     ((case env key of Some v \<Rightarrow> v | None \<Rightarrow> dflt), tr @ [EnvironGet key dflt])"

definition info :: "string \<Rightarrow> trace \<Rightarrow> trace" where
  "info msg tr = tr @ [Info msg]"

text \<open>\<^verbatim>\<open>Mininet(controller=..., switch=..., link=..., autoSetMacs=...)\<close>\<close>

definition Mininet :: "pyclass option \<Rightarrow> pyclass \<Rightarrow> pyclass \<Rightarrow> bool \<Rightarrow> trace \<Rightarrow> trace" where
  "Mininet controller switch link autoSetMacs tr =
     tr @ [MininetInit controller switch link autoSetMacs]"

text \<open>\<^verbatim>\<open>net.addController(name, controller=..., ip=..., port=...)\<close>\<close>

definition addController :: "string \<Rightarrow> pyclass \<Rightarrow> string \<Rightarrow> int \<Rightarrow> trace \<Rightarrow> trace" where
  "addController name controller ip port tr = tr @ [AddController name controller ip port]"

text \<open>\<^verbatim>\<open>net.addSwitch(name, cls=..., protocols=...)\<close> returns the new switch.\<close>

definition addSwitch :: "string \<Rightarrow> pyclass \<Rightarrow> string \<Rightarrow> trace \<Rightarrow> node \<times> trace" where
  "addSwitch name cls protocols tr = (Node name, tr @ [AddSwitch name cls protocols])"

text \<open>\<^verbatim>\<open>net.addHost(name, ip=..., mac=...)\<close> returns the new host.\<close>

definition addHost :: "string \<Rightarrow> string \<Rightarrow> string \<Rightarrow> trace \<Rightarrow> node \<times> trace" where
  "addHost name ip mac tr = (Node name, tr @ [AddHost name ip mac])"

text \<open>\<^verbatim>\<open>net.addLink(node1, node2, cls=..., bw=..., delay=...)\<close>\<close>

definition addLink :: "node \<Rightarrow> node \<Rightarrow> pyclass \<Rightarrow> int \<Rightarrow> string \<Rightarrow> trace \<Rightarrow> trace" where
  "addLink node1 node2 cls bw delay tr = tr @ [AddLink node1 node2 cls bw delay]"

definition start :: "trace \<Rightarrow> trace" where
  "start tr = tr @ [Start]"

text \<open>The switches the network holds: those added so far, in order.\<close>

fun switch_of :: "call \<Rightarrow> (string \<times> pyclass \<times> string) list" where
  "switch_of (AddSwitch name cls protocols) = [(name, cls, protocols)]"
| "switch_of c = []"

definition switches :: "trace \<Rightarrow> (string \<times> pyclass \<times> string) list" where
  "switches tr = concat (map switch_of tr)"

text \<open>
  Modelled from the spec: \<^verbatim>\<open>net.waitConnected\<close> is a method of the Mininet library,
  which is not among the sources. The spec's step 7: ``Block until every switch reports
  a session with the controller -- no timeout is specified; if the controller is
  unreachable this step blocks indefinitely''. The wait polls in rounds: in round
  \<open>t\<close> every switch that reports a session is struck off the remaining ones; the wait
  returns once none remains. A timeout, where one is given, ends the wait after that
  many rounds with the answer \<open>False\<close>; without one the wait goes on. A wait that never
  returns has the value \<open>None\<close>.
\<close>

partial_function (option) waitConnected ::
  "(nat \<Rightarrow> string \<Rightarrow> bool) \<Rightarrow> nat option \<Rightarrow> string list \<Rightarrow> nat \<Rightarrow> bool option" where
  "waitConnected conn timeout remaining t =
     (let remaining' = filter (\<lambda>s. \<not> conn t s) remaining in
      if remaining' = [] then Some True
      else if (case timeout of Some limit \<Rightarrow> limit < t | None \<Rightarrow> False) then Some False
      else waitConnected conn timeout remaining' (Suc t))"

declare waitConnected.simps [code]

text \<open>
  \<^verbatim>\<open>net.waitConnected(timeout)\<close>: the call is made, then it returns or it does not.
\<close>

definition net_waitConnected :: "library \<Rightarrow> nat option \<Rightarrow> trace \<Rightarrow> trace \<times> bool option" where
  "net_waitConnected lib timeout tr =
     (tr @ [WaitConnected timeout], waitConnected (connected lib) timeout (map fst (switches tr)) 0)"

text \<open>\<^verbatim>\<open>net.pingAll()\<close> returns the loss the probe measured.\<close>

definition pingAll :: "library \<Rightarrow> trace \<Rightarrow> nat \<times> trace" where
  "pingAll lib tr = (ping_lost lib, tr @ [PingAll])"

text \<open>
  \<^verbatim>\<open>CLI(net)\<close>: a read-eval loop that returns when the operator leaves the prompt.
\<close>

definition CLI :: "library \<Rightarrow> trace \<Rightarrow> trace \<times> unit option" where
  "CLI lib tr = (tr @ [CLIRun], if cli_exits lib then Some () else None)"

definition stop :: "trace \<Rightarrow> trace" where
  "stop tr = tr @ [Stop]"

subsection \<open>The script\<close>

definition createTopology :: "environ \<Rightarrow> library \<Rightarrow> run" where
  "createTopology env lib =
    (let (onos_ip, tr) = environ_get env ''ONOS_IP'' ''127.0.0.1'' [];
         tr = info (''*** Creating network with ONOS controller at '' @ onos_ip @ ''\<newline>'') tr;
         tr = Mininet None OVSKernelSwitch TCLink True tr;
         tr = info ''*** Adding ONOS controller\<newline>'' tr;
         tr = addController ''c0'' RemoteController onos_ip 6653 tr;
         tr = info ''*** Adding switches\<newline>'' tr;
         (s1, tr) = addSwitch ''s1'' OVSKernelSwitch ''OpenFlow13'' tr;
         (s2, tr) = addSwitch ''s2'' OVSKernelSwitch ''OpenFlow13'' tr;
         (s3, tr) = addSwitch ''s3'' OVSKernelSwitch ''OpenFlow13'' tr;
         (s4, tr) = addSwitch ''s4'' OVSKernelSwitch ''OpenFlow13'' tr;
         (s5, tr) = addSwitch ''s5'' OVSKernelSwitch ''OpenFlow13'' tr;
         tr = info ''*** Adding hosts\<newline>'' tr;
         (h1, tr) = addHost ''h1'' ''10.0.0.1/24'' ''00:00:00:00:00:01'' tr;
         (h2, tr) = addHost ''h2'' ''10.0.0.2/24'' ''00:00:00:00:00:02'' tr;
         (h3, tr) = addHost ''h3'' ''10.0.0.3/24'' ''00:00:00:00:00:03'' tr;
         (h4, tr) = addHost ''h4'' ''10.0.0.4/24'' ''00:00:00:00:00:04'' tr;
         (h5, tr) = addHost ''h5'' ''10.0.0.5/24'' ''00:00:00:00:00:05'' tr;
         tr = info ''*** Creating links\<newline>'' tr;
         tr = addLink h1 s1 TCLink 100 ''5ms'' tr;
         tr = addLink h2 s2 TCLink 100 ''5ms'' tr;
         tr = addLink h3 s3 TCLink 100 ''5ms'' tr;
         tr = addLink h4 s4 TCLink 100 ''5ms'' tr;
         tr = addLink h5 s5 TCLink 100 ''5ms'' tr;
         tr = addLink s1 s2 TCLink 100 ''10ms'' tr;
         tr = addLink s1 s3 TCLink 100 ''10ms'' tr;
         tr = addLink s1 s4 TCLink 100 ''10ms'' tr;
         tr = addLink s2 s3 TCLink 100 ''10ms'' tr;
         tr = addLink s2 s4 TCLink 100 ''10ms'' tr;
         tr = addLink s3 s4 TCLink 100 ''10ms'' tr;
         tr = addLink s3 s5 TCLink 100 ''10ms'' tr;
         tr = info ''*** Starting network\<newline>'' tr;
         tr = start tr;
         tr = info ''*** Network topology created successfully!\<newline>'' tr;
         tr = info ''*** Topology summary:\<newline>'' tr;
         tr = info ''    - 5 switches (s1-s5)\<newline>'' tr;
         tr = info ''    - 5 hosts (h1-h5) with IPs 10.0.0.1-5\<newline>'' tr;
         tr = info ''    - Multiple redundant paths for testing\<newline>'' tr;
         tr = info ''    - All links: 100 Mbps bandwidth\<newline>'' tr;
         tr = info ''\<newline>'' tr;
         tr = info ''*** Testing connectivity...\<newline>'' tr;
         tr = info ''*** Waiting for switches to connect to ONOS...\<newline>'' tr;
         (tr, all_connected) = net_waitConnected lib None tr
     in case all_connected of
          None \<Rightarrow> \<lparr>calls = tr, outcome = Blocked\<rparr>
        | Some _ \<Rightarrow>
           (let tr = info ''*** Running pingall to discover hosts...\<newline>'' tr;
                (_, tr) = pingAll lib tr;
                tr = info ''\<newline>*** Network is ready!\<newline>'' tr;
                tr = info ''*** You can now:\<newline>'' tr;
                tr = info ''    1. Test connectivity: mininet> pingall\<newline>'' tr;
                tr = info ''    2. Generate traffic: mininet> iperf h1 h2\<newline>'' tr;
                tr = info ''    3. Create congestion: mininet> h1 iperf -c 10.0.0.2 -b 85M -t 60\<newline>'' tr;
                tr = info ''    4. Monitor links in ONOS GUI: http://localhost:8181/onos/ui\<newline>'' tr;
                tr = info ''\<newline>'' tr;
                (tr, exited) = CLI lib tr
            in case exited of
                 None \<Rightarrow> \<lparr>calls = tr, outcome = Blocked\<rparr>
               | Some _ \<Rightarrow>
                  (let tr = info ''*** Stopping network\<newline>'' tr;
                       tr = stop tr
                   in \<lparr>calls = tr, outcome = Returned\<rparr>)))"

subsection \<open>Reading a run\<close>

text \<open>The calls of each kind among the calls of a run, with their arguments, in order.\<close>

fun is_info :: "call \<Rightarrow> bool" where
  "is_info (Info msg) = True"
| "is_info c = False"

definition api_calls :: "trace \<Rightarrow> trace" where
  "api_calls tr = filter (\<lambda>c. \<not> is_info c) tr"

fun controller_of :: "call \<Rightarrow> (string \<times> pyclass \<times> string \<times> int) list" where
  "controller_of (AddController name controller ip port) = [(name, controller, ip, port)]"
| "controller_of c = []"

definition controllers :: "trace \<Rightarrow> (string \<times> pyclass \<times> string \<times> int) list" where
  "controllers tr = concat (map controller_of tr)"

fun host_of :: "call \<Rightarrow> (string \<times> string \<times> string) list" where
  "host_of (AddHost name ip mac) = [(name, ip, mac)]"
| "host_of c = []"

definition hosts :: "trace \<Rightarrow> (string \<times> string \<times> string) list" where
  "hosts tr = concat (map host_of tr)"

fun link_of :: "call \<Rightarrow> (node \<times> node \<times> pyclass \<times> int \<times> string) list" where
  "link_of (AddLink node1 node2 cls bw delay) = [(node1, node2, cls, bw, delay)]"
| "link_of c = []"

definition links :: "trace \<Rightarrow> (node \<times> node \<times> pyclass \<times> int \<times> string) list" where
  "links tr = concat (map link_of tr)"

definition endpoints :: "node \<times> node \<times> pyclass \<times> int \<times> string \<Rightarrow> string \<times> string" where
  "endpoints l = (case l of (node1, node2, cls, bw, delay) \<Rightarrow> (node_name node1, node_name node2))"

text \<open>The nodes a call creates, and the nodes the calls of a trace have created.\<close>

fun created_by :: "call \<Rightarrow> node list" where
  "created_by (AddSwitch name cls protocols) = [Node name]"
| "created_by (AddHost name ip mac) = [Node name]"
| "created_by c = []"

definition created :: "trace \<Rightarrow> node list" where
  "created tr = concat (map created_by tr)"

text \<open>
  Every \<^verbatim>\<open>net.addLink\<close> of a trace names two nodes created by the calls before it;
  \<open>seen\<close> are the nodes created before the trace starts.
\<close>

fun links_after_nodes :: "node list \<Rightarrow> trace \<Rightarrow> bool" where
  "links_after_nodes seen [] = True"
| "links_after_nodes seen (AddLink node1 node2 cls bw delay # cs) =
     (node1 \<in> set seen \<and> node2 \<in> set seen \<and> links_after_nodes seen cs)"
| "links_after_nodes seen (c # cs) = links_after_nodes (seen @ created_by c) cs"

text \<open>The unordered pair of nodes a link joins.\<close>

definition unordered_pair :: "node \<times> node \<times> pyclass \<times> int \<times> string \<Rightarrow> node set" where
  "unordered_pair l = (case l of (node1, node2, cls, bw, delay) \<Rightarrow> {node1, node2})"

text \<open>The parameters a host of a given name was created with.\<close>

definition host_params :: "string \<Rightarrow> trace \<Rightarrow> (string \<times> string) list" where
  "host_params name tr = map snd (filter (\<lambda>h. fst h = name) (hosts tr))"

text \<open>Whether a node is one of the hosts, or one of the switches, of a trace.\<close>

definition is_host :: "trace \<Rightarrow> node \<Rightarrow> bool" where
  "is_host tr n = (node_name n \<in> set (map fst (hosts tr)))"

definition is_switch :: "trace \<Rightarrow> node \<Rightarrow> bool" where
  "is_switch tr n = (node_name n \<in> set (map fst (switches tr)))"

text \<open>
  The spec's name for what each call does (its section 2, ``Control flow''); logging is
  none of the operations it lists.
\<close>

datatype operation =
    ReadControllerAddress
  | ConstructNetwork
  | RegisterController
  | CreateSwitch
  | CreateHost
  | CreateLink
  | StartNetwork
  | WaitForController
  | ReachabilityProbe
  | InteractiveSession
  | StopNetwork

fun operation_of :: "call \<Rightarrow> operation list" where
  "operation_of (EnvironGet key dflt) = [ReadControllerAddress]"
| "operation_of (Info msg) = []"
| "operation_of (MininetInit controller switch link autoSetMacs) = [ConstructNetwork]"
| "operation_of (AddController name controller ip port) = [RegisterController]"
| "operation_of (AddSwitch name cls protocols) = [CreateSwitch]"
| "operation_of (AddHost name ip mac) = [CreateHost]"
| "operation_of (AddLink node1 node2 cls bw delay) = [CreateLink]"
| "operation_of Start = [StartNetwork]"
| "operation_of (WaitConnected timeout) = [WaitForController]"
| "operation_of PingAll = [ReachabilityProbe]"
| "operation_of CLIRun = [InteractiveSession]"
| "operation_of Stop = [StopNetwork]"

definition operations :: "trace \<Rightarrow> operation list" where
  "operations tr = concat (map operation_of tr)"

text \<open>The order of the operations as the spec lists it.\<close>

definition build_and_run_order :: "operation list" where
  "build_and_run_order =
     [ReadControllerAddress, ConstructNetwork, RegisterController, CreateSwitch, CreateHost,
      CreateLink, StartNetwork, WaitForController, ReachabilityProbe, InteractiveSession,
      StopNetwork]"

text \<open>The address the script resolves: the value of its first statement.\<close>

definition controller_address :: "environ \<Rightarrow> string" where
  "controller_address env = fst (environ_get env ''ONOS_IP'' ''127.0.0.1'' [])"

text \<open>A call with the address taken out of the controller registration.\<close>

fun mask_controller_ip :: "call \<Rightarrow> call" where
  "mask_controller_ip (AddController name controller ip port) =
     AddController name controller [] port"
| "mask_controller_ip c = c"

text \<open>Two outside worlds and an environment to run the script in.\<close>

definition all_up :: library where
  "all_up = \<lparr>connected = (\<lambda>t s. True), ping_lost = 0, cli_exits = True\<rparr>"

definition controller_down :: library where
  "controller_down = \<lparr>connected = (\<lambda>t s. False), ping_lost = 0, cli_exits = True\<rparr>"

definition lab_env :: environ where
  "lab_env = [''ONOS_IP'' \<mapsto> ''192.168.1.50'']"

section \<open>Properties\<close>

subsection \<open>The run, written out\<close>

text \<open>
  The calls of a run, in order: the script builds the network and calls the wait; if the
  wait returns it probes and opens the prompt; if the prompt is left it stops the
  network.
\<close>

lemma createTopology_run:
  "createTopology env lib =
    (let onos_ip = (case env ''ONOS_IP'' of Some v \<Rightarrow> v | None \<Rightarrow> ''127.0.0.1'');
         built =
          [EnvironGet ''ONOS_IP'' ''127.0.0.1'',
           Info (''*** Creating network with ONOS controller at '' @ onos_ip @ ''\<newline>''),
           MininetInit None OVSKernelSwitch TCLink True,
           Info ''*** Adding ONOS controller\<newline>'',
           AddController ''c0'' RemoteController onos_ip 6653,
           Info ''*** Adding switches\<newline>'',
           AddSwitch ''s1'' OVSKernelSwitch ''OpenFlow13'',
           AddSwitch ''s2'' OVSKernelSwitch ''OpenFlow13'',
           AddSwitch ''s3'' OVSKernelSwitch ''OpenFlow13'',
           AddSwitch ''s4'' OVSKernelSwitch ''OpenFlow13'',
           AddSwitch ''s5'' OVSKernelSwitch ''OpenFlow13'',
           Info ''*** Adding hosts\<newline>'',
           AddHost ''h1'' ''10.0.0.1/24'' ''00:00:00:00:00:01'',
           AddHost ''h2'' ''10.0.0.2/24'' ''00:00:00:00:00:02'',
           AddHost ''h3'' ''10.0.0.3/24'' ''00:00:00:00:00:03'',
           AddHost ''h4'' ''10.0.0.4/24'' ''00:00:00:00:00:04'',
           AddHost ''h5'' ''10.0.0.5/24'' ''00:00:00:00:00:05'',
           Info ''*** Creating links\<newline>'',
           AddLink (Node ''h1'') (Node ''s1'') TCLink 100 ''5ms'',
           AddLink (Node ''h2'') (Node ''s2'') TCLink 100 ''5ms'',
           AddLink (Node ''h3'') (Node ''s3'') TCLink 100 ''5ms'',
           AddLink (Node ''h4'') (Node ''s4'') TCLink 100 ''5ms'',
           AddLink (Node ''h5'') (Node ''s5'') TCLink 100 ''5ms'',
           AddLink (Node ''s1'') (Node ''s2'') TCLink 100 ''10ms'',
           AddLink (Node ''s1'') (Node ''s3'') TCLink 100 ''10ms'',
           AddLink (Node ''s1'') (Node ''s4'') TCLink 100 ''10ms'',
           AddLink (Node ''s2'') (Node ''s3'') TCLink 100 ''10ms'',
           AddLink (Node ''s2'') (Node ''s4'') TCLink 100 ''10ms'',
           AddLink (Node ''s3'') (Node ''s4'') TCLink 100 ''10ms'',
           AddLink (Node ''s3'') (Node ''s5'') TCLink 100 ''10ms'',
           Info ''*** Starting network\<newline>'',
           Start,
           Info ''*** Network topology created successfully!\<newline>'',
           Info ''*** Topology summary:\<newline>'',
           Info ''    - 5 switches (s1-s5)\<newline>'',
           Info ''    - 5 hosts (h1-h5) with IPs 10.0.0.1-5\<newline>'',
           Info ''    - Multiple redundant paths for testing\<newline>'',
           Info ''    - All links: 100 Mbps bandwidth\<newline>'',
           Info ''\<newline>'',
           Info ''*** Testing connectivity...\<newline>'',
           Info ''*** Waiting for switches to connect to ONOS...\<newline>'',
           WaitConnected None];
         probed =
          [Info ''*** Running pingall to discover hosts...\<newline>'',
           PingAll,
           Info ''\<newline>*** Network is ready!\<newline>'',
           Info ''*** You can now:\<newline>'',
           Info ''    1. Test connectivity: mininet> pingall\<newline>'',
           Info ''    2. Generate traffic: mininet> iperf h1 h2\<newline>'',
           Info ''    3. Create congestion: mininet> h1 iperf -c 10.0.0.2 -b 85M -t 60\<newline>'',
           Info ''    4. Monitor links in ONOS GUI: http://localhost:8181/onos/ui\<newline>'',
           Info ''\<newline>'',
           CLIRun];
         stopped = [Info ''*** Stopping network\<newline>'', Stop]
     in case waitConnected (connected lib) None [''s1'', ''s2'', ''s3'', ''s4'', ''s5''] 0 of
          None \<Rightarrow> \<lparr>calls = built, outcome = Blocked\<rparr>
        | Some _ \<Rightarrow>
            if cli_exits lib then \<lparr>calls = built @ probed @ stopped, outcome = Returned\<rparr>
            else \<lparr>calls = built @ probed, outcome = Blocked\<rparr>)"
  unfolding createTopology_def environ_get_def info_def Mininet_def addController_def
    addSwitch_def addHost_def addLink_def start_def net_waitConnected_def pingAll_def
    CLI_def stop_def switches_def
  apply (simp only: Let_def prod.case append_Nil append_Cons append_assoc)
  apply (simp only: map_append concat_append list.map concat.simps switch_of.simps
      fst_conv append_Nil append_Cons append_Nil2)
  apply (cases "waitConnected (connected lib) None [''s1'', ''s2'', ''s3'', ''s4'', ''s5''] 0";
      cases "cli_exits lib")
     apply (simp_all only: option.case if_True if_False)
  done

text \<open>The three ways a run can end.\<close>

lemma createTopology_cases:
  obtains
    (wait_blocks) "waitConnected (connected lib) None [''s1'', ''s2'', ''s3'', ''s4'', ''s5''] 0 = None"
  | (prompt_blocks) b where
      "waitConnected (connected lib) None [''s1'', ''s2'', ''s3'', ''s4'', ''s5''] 0 = Some b"
      "\<not> cli_exits lib"
  | (returns) b where
      "waitConnected (connected lib) None [''s1'', ''s2'', ''s3'', ''s4'', ''s5''] 0 = Some b"
      "cli_exits lib"
  by (cases "waitConnected (connected lib) None [''s1'', ''s2'', ''s3'', ''s4'', ''s5''] 0";
      cases "cli_exits lib") auto

subsection \<open>The wait\<close>

text \<open>
  A wait without a timeout, for switches of which none ever reports a session, does
  not return: no round of it can have been the last.
\<close>

lemma waitConnected_returns_only_if:
  assumes never: "\<And>t s. \<not> conn t s"
    and ret: "waitConnected c timeout remaining t = Some y"
  shows "c = conn \<longrightarrow> timeout = None \<longrightarrow> remaining = []"
proof (rule waitConnected.raw_induct
    [where P = "\<lambda>c timeout remaining t y. c = conn \<longrightarrow> timeout = None \<longrightarrow> remaining = []",
      OF _ ret])
  fix w c timeout remaining t y
  assume IH: "\<And>c timeout remaining t y.
      w c timeout remaining t = Some y \<Longrightarrow> c = conn \<longrightarrow> timeout = None \<longrightarrow> remaining = []"
    and round: "(let remaining' = filter (\<lambda>s. \<not> c t s) remaining in
      if remaining' = [] then Some True
      else if (case timeout of Some limit \<Rightarrow> limit < t | None \<Rightarrow> False) then Some False
      else w c timeout remaining' (Suc t)) = Some y"
  show "c = conn \<longrightarrow> timeout = None \<longrightarrow> remaining = []"
  proof (intro impI)
    assume c: "c = conn" and no_timeout: "timeout = None"
    from never c have all_remain: "filter (\<lambda>s. \<not> c t s) remaining = remaining"
      by simp
    show "remaining = []"
    proof (rule ccontr)
      assume some_left: "remaining \<noteq> []"
      with round all_remain no_timeout have "w c timeout remaining (Suc t) = Some y"
        by (simp add: Let_def)
      from IH[OF this] c no_timeout some_left show False
        by simp
    qed
  qed
qed

lemma waitConnected_never:
  assumes "\<And>t s. \<not> conn t s" and "remaining \<noteq> []"
  shows "waitConnected conn None remaining t = None"
proof (cases "waitConnected conn None remaining t")
  case None
  then show ?thesis .
next
  case (Some y)
  have "remaining = []"
    using waitConnected_returns_only_if[of conn conn None remaining t y] assms(1) Some
    by simp
  with assms(2) show ?thesis
    by simp
qed

text \<open>With a timeout the same wait gives up, and says so.\<close>

lemma waitConnected_timeout:
  assumes "\<And>t s. \<not> conn t s" and "remaining \<noteq> []"
  shows "waitConnected conn (Some 0) remaining 0 = Some False"
proof -
  have all_remain: "filter (\<lambda>s. \<not> conn t s) remaining = remaining" for t
    using assms(1) by simp
  have "waitConnected conn (Some 0) remaining (Suc 0) = Some False"
    using assms(2) by (subst waitConnected.simps) (simp add: all_remain Let_def)
  then show ?thesis
    using assms(2) by (subst waitConnected.simps) (simp add: all_remain Let_def)
qed

text \<open>Switches that all report in the first round end the wait at once.\<close>

lemma waitConnected_at_once:
  assumes "\<And>s. conn 0 s"
  shows "waitConnected conn timeout remaining 0 = Some True"
proof -
  have "filter (\<lambda>s. \<not> conn 0 s) remaining = []"
    using assms by simp
  then show ?thesis
    by (subst waitConnected.simps) (simp add: Let_def)
qed

lemma all_up_returns:
  "waitConnected (connected all_up) None [''s1'', ''s2'', ''s3'', ''s4'', ''s5''] 0 = Some True"
  by (rule waitConnected_at_once) (simp add: all_up_def)

lemma all_up_exits: "cli_exits all_up"
  by (simp add: all_up_def)

subsection \<open>The calls of each kind\<close>

lemma api_calls_createTopology:
  "api_calls (calls (createTopology env lib)) =
     take (case waitConnected (connected lib) None [''s1'', ''s2'', ''s3'', ''s4'', ''s5''] 0 of
             None \<Rightarrow> 27 | Some _ \<Rightarrow> if cli_exits lib then 30 else 29)
       [EnvironGet ''ONOS_IP'' ''127.0.0.1'',
        MininetInit None OVSKernelSwitch TCLink True,
        AddController ''c0'' RemoteController
          (case env ''ONOS_IP'' of Some v \<Rightarrow> v | None \<Rightarrow> ''127.0.0.1'') 6653,
        AddSwitch ''s1'' OVSKernelSwitch ''OpenFlow13'',
        AddSwitch ''s2'' OVSKernelSwitch ''OpenFlow13'',
        AddSwitch ''s3'' OVSKernelSwitch ''OpenFlow13'',
        AddSwitch ''s4'' OVSKernelSwitch ''OpenFlow13'',
        AddSwitch ''s5'' OVSKernelSwitch ''OpenFlow13'',
        AddHost ''h1'' ''10.0.0.1/24'' ''00:00:00:00:00:01'',
        AddHost ''h2'' ''10.0.0.2/24'' ''00:00:00:00:00:02'',
        AddHost ''h3'' ''10.0.0.3/24'' ''00:00:00:00:00:03'',
        AddHost ''h4'' ''10.0.0.4/24'' ''00:00:00:00:00:04'',
        AddHost ''h5'' ''10.0.0.5/24'' ''00:00:00:00:00:05'',
        AddLink (Node ''h1'') (Node ''s1'') TCLink 100 ''5ms'',
        AddLink (Node ''h2'') (Node ''s2'') TCLink 100 ''5ms'',
        AddLink (Node ''h3'') (Node ''s3'') TCLink 100 ''5ms'',
        AddLink (Node ''h4'') (Node ''s4'') TCLink 100 ''5ms'',
        AddLink (Node ''h5'') (Node ''s5'') TCLink 100 ''5ms'',
        AddLink (Node ''s1'') (Node ''s2'') TCLink 100 ''10ms'',
        AddLink (Node ''s1'') (Node ''s3'') TCLink 100 ''10ms'',
        AddLink (Node ''s1'') (Node ''s4'') TCLink 100 ''10ms'',
        AddLink (Node ''s2'') (Node ''s3'') TCLink 100 ''10ms'',
        AddLink (Node ''s2'') (Node ''s4'') TCLink 100 ''10ms'',
        AddLink (Node ''s3'') (Node ''s4'') TCLink 100 ''10ms'',
        AddLink (Node ''s3'') (Node ''s5'') TCLink 100 ''10ms'',
        Start, WaitConnected None, PingAll, CLIRun, Stop]"
  by (cases rule: createTopology_cases[of lib])
    (simp_all add: createTopology_run api_calls_def Let_def)

lemma switches_createTopology:
  "switches (calls (createTopology env lib)) =
     [(''s1'', OVSKernelSwitch, ''OpenFlow13''), (''s2'', OVSKernelSwitch, ''OpenFlow13''),
      (''s3'', OVSKernelSwitch, ''OpenFlow13''), (''s4'', OVSKernelSwitch, ''OpenFlow13''),
      (''s5'', OVSKernelSwitch, ''OpenFlow13'')]"
  by (cases rule: createTopology_cases[of lib])
    (simp_all add: createTopology_run switches_def Let_def)

lemma hosts_createTopology:
  "hosts (calls (createTopology env lib)) =
     [(''h1'', ''10.0.0.1/24'', ''00:00:00:00:00:01''),
      (''h2'', ''10.0.0.2/24'', ''00:00:00:00:00:02''),
      (''h3'', ''10.0.0.3/24'', ''00:00:00:00:00:03''),
      (''h4'', ''10.0.0.4/24'', ''00:00:00:00:00:04''),
      (''h5'', ''10.0.0.5/24'', ''00:00:00:00:00:05'')]"
  by (cases rule: createTopology_cases[of lib])
    (simp_all add: createTopology_run hosts_def Let_def)

lemma links_createTopology:
  "links (calls (createTopology env lib)) =
     [(Node ''h1'', Node ''s1'', TCLink, 100, ''5ms''),
      (Node ''h2'', Node ''s2'', TCLink, 100, ''5ms''),
      (Node ''h3'', Node ''s3'', TCLink, 100, ''5ms''),
      (Node ''h4'', Node ''s4'', TCLink, 100, ''5ms''),
      (Node ''h5'', Node ''s5'', TCLink, 100, ''5ms''),
      (Node ''s1'', Node ''s2'', TCLink, 100, ''10ms''),
      (Node ''s1'', Node ''s3'', TCLink, 100, ''10ms''),
      (Node ''s1'', Node ''s4'', TCLink, 100, ''10ms''),
      (Node ''s2'', Node ''s3'', TCLink, 100, ''10ms''),
      (Node ''s2'', Node ''s4'', TCLink, 100, ''10ms''),
      (Node ''s3'', Node ''s4'', TCLink, 100, ''10ms''),
      (Node ''s3'', Node ''s5'', TCLink, 100, ''10ms'')]"
  by (cases rule: createTopology_cases[of lib])
    (simp_all add: createTopology_run links_def Let_def)

lemma controllers_createTopology:
  "controllers (calls (createTopology env lib)) =
     [(''c0'', RemoteController,
       (case env ''ONOS_IP'' of Some v \<Rightarrow> v | None \<Rightarrow> ''127.0.0.1''), 6653)]"
  by (cases rule: createTopology_cases[of lib])
    (simp_all add: createTopology_run controllers_def Let_def)

lemma operations_createTopology:
  "operations (calls (createTopology env lib)) =
     take (case waitConnected (connected lib) None [''s1'', ''s2'', ''s3'', ''s4'', ''s5''] 0 of
             None \<Rightarrow> 27 | Some _ \<Rightarrow> if cli_exits lib then 30 else 29)
       ([ReadControllerAddress, ConstructNetwork, RegisterController] @
        replicate 5 CreateSwitch @ replicate 5 CreateHost @ replicate 12 CreateLink @
        [StartNetwork, WaitForController, ReachabilityProbe, InteractiveSession, StopNetwork])"
  by (cases rule: createTopology_cases[of lib])
    (simp_all add: createTopology_run operations_def Let_def eval_nat_numeral)

subsection \<open>Links and the nodes they join\<close>

lemma links_after_nodes_nth:
  assumes "links_after_nodes seen tr" and "i < length tr"
    and "tr ! i = AddLink node1 node2 cls bw delay"
  shows "node1 \<in> set (seen @ created (take i tr)) \<and> node2 \<in> set (seen @ created (take i tr))"
  using assms
proof (induction tr arbitrary: seen i)
  case Nil
  then show ?case by simp
next
  case (Cons c cs)
  show ?case
  proof (cases i)
    case 0
    with Cons.prems show ?thesis by simp
  next
    case (Suc j)
    with Cons.prems have j: "j < length cs" "cs ! j = AddLink node1 node2 cls bw delay"
      by simp_all
    have rest: "links_after_nodes (seen @ created_by c) cs"
      using Cons.prems(1) by (cases c) simp_all
    from Cons.IH[OF rest j] Suc show ?thesis
      by (simp add: created_def)
  qed
qed

lemma links_after_nodes_createTopology:
  "links_after_nodes [] (calls (createTopology env lib))"
  by (cases rule: createTopology_cases[of lib])
    (simp_all add: createTopology_run Let_def)

section \<open>The claims\<close>

text \<open>
  C1 (as stated): the script creates exactly 10 links. It does not: with no
  \<^verbatim>\<open>ONOS_IP\<close> set and every switch connected, the run has created 12.
\<close>

theorem createTopology_links_not_ten:
  "length (links (calls (createTopology Map.empty all_up))) \<noteq> 10"
  by (simp add: links_createTopology)

text \<open>
  C1 (amended): the script creates exactly 12 links, and their endpoint pairs are, in the
  order of creation, the 5 host-switch pairs (h1,s1), (h2,s2), (h3,s3), (h4,s4), (h5,s5)
  and the 7 switch-switch pairs (s1,s2), (s1,s3), (s1,s4), (s2,s3), (s2,s4), (s3,s4),
  (s3,s5); no link with any other endpoint pair is created.
\<close>

theorem createTopology_twelve_links:
  "length (links (calls (createTopology env lib))) = 12 \<and>
   map endpoints (links (calls (createTopology env lib))) =
     [(''h1'', ''s1''), (''h2'', ''s2''), (''h3'', ''s3''), (''h4'', ''s4''), (''h5'', ''s5''),
      (''s1'', ''s2''), (''s1'', ''s3''), (''s1'', ''s4''), (''s2'', ''s3''), (''s2'', ''s4''),
      (''s3'', ''s4''), (''s3'', ''s5'')]"
  by (simp add: links_createTopology endpoints_def)

text \<open>
  C2: the address of the controller registration is the value of \<^verbatim>\<open>ONOS_IP\<close> when
  the variable is set, whatever string it holds, and \<^verbatim>\<open>127.0.0.1\<close> when it is not; the
  port is 6653 in every run, and the registration is the only one.
\<close>

theorem createTopology_controller_address:
  "(env ''ONOS_IP'' = Some v \<longrightarrow>
      controllers (calls (createTopology env lib)) = [(''c0'', RemoteController, v, 6653)]) \<and>
   (env ''ONOS_IP'' = None \<longrightarrow>
      controllers (calls (createTopology env lib)) =
        [(''c0'', RemoteController, ''127.0.0.1'', 6653)])"
  by (simp add: controllers_createTopology)

theorem createTopology_controller_address_witness:
  "controllers (calls (createTopology lab_env all_up)) =
     [(''c0'', RemoteController, ''192.168.1.50'', 6653)] \<and>
   controllers (calls (createTopology Map.empty all_up)) =
     [(''c0'', RemoteController, ''127.0.0.1'', 6653)]"
  using createTopology_controller_address [of lab_env "''192.168.1.50''" all_up]
    createTopology_controller_address [of Map.empty "[]" all_up]
  by (simp add: lab_env_def)

text \<open>
  C3: the wait is called without a timeout, and if no switch ever reports a session the
  call does not return: the run stays blocked in it, and the probe, the prompt and the
  stop are never called.
\<close>

theorem createTopology_blocks_in_wait:
  assumes "\<forall>t s. \<not> connected lib t s"
  shows "waitConnected (connected lib) None
           (map fst (switches (calls (createTopology env lib)))) 0 = None \<and>
         outcome (createTopology env lib) = Blocked \<and>
         last (calls (createTopology env lib)) = WaitConnected None \<and>
         PingAll \<notin> set (calls (createTopology env lib)) \<and>
         CLIRun \<notin> set (calls (createTopology env lib)) \<and>
         Stop \<notin> set (calls (createTopology env lib))"
proof -
  have blocked:
    "waitConnected (connected lib) None [''s1'', ''s2'', ''s3'', ''s4'', ''s5''] 0 = None"
    using assms by (intro waitConnected_never) simp_all
  then show ?thesis
    by (simp add: switches_createTopology) (simp add: createTopology_run Let_def)
qed

theorem createTopology_blocks_in_wait_witness:
  "outcome (createTopology lab_env controller_down) = Blocked \<and>
   last (calls (createTopology lab_env controller_down)) = WaitConnected None \<and>
   PingAll \<notin> set (calls (createTopology lab_env controller_down)) \<and>
   CLIRun \<notin> set (calls (createTopology lab_env controller_down))"
  using createTopology_blocks_in_wait [of controller_down lab_env]
  by (simp add: controller_down_def)

text \<open>
  C4: what the probe returns has no effect on the run; once the probe has been called
  the next call of the script (logging apart) opens the prompt; and no call is made a
  second time.
\<close>

theorem createTopology_ignores_probe:
  "createTopology env (lib\<lparr>ping_lost := n\<rparr>) = createTopology env lib \<and>
   (PingAll \<in> set (calls (createTopology env lib)) \<longrightarrow>
      (\<exists>before after.
         api_calls (calls (createTopology env lib)) = before @ [PingAll, CLIRun] @ after)) \<and>
   distinct (api_calls (calls (createTopology env lib)))"
proof (intro conjI impI)
  have "connected (lib\<lparr>ping_lost := n\<rparr>) = connected lib"
    and "cli_exits (lib\<lparr>ping_lost := n\<rparr>) = cli_exits lib"
    by simp_all
  then show "createTopology env (lib\<lparr>ping_lost := n\<rparr>) = createTopology env lib"
    by (simp only: createTopology_run)
next
  assume probed: "PingAll \<in> set (calls (createTopology env lib))"
  then have "PingAll \<in> set (api_calls (calls (createTopology env lib)))"
    by (simp add: api_calls_def)
  then obtain b where
    returned: "waitConnected (connected lib) None [''s1'', ''s2'', ''s3'', ''s4'', ''s5''] 0 = Some b"
    by (cases "waitConnected (connected lib) None [''s1'', ''s2'', ''s3'', ''s4'', ''s5''] 0")
      (auto simp: api_calls_createTopology)
  let ?before = "take 27 (api_calls (calls (createTopology env lib)))"
  let ?after = "drop 29 (api_calls (calls (createTopology env lib)))"
  have "api_calls (calls (createTopology env lib)) = ?before @ [PingAll, CLIRun] @ ?after"
    using returned by (cases "cli_exits lib") (simp_all add: api_calls_createTopology)
  then show "\<exists>before after.
      api_calls (calls (createTopology env lib)) = before @ [PingAll, CLIRun] @ after"
    by blast
next
  have "distinct (take k
     [EnvironGet ''ONOS_IP'' ''127.0.0.1'',
      MininetInit None OVSKernelSwitch TCLink True,
      AddController ''c0'' RemoteController a 6653,
      AddSwitch ''s1'' OVSKernelSwitch ''OpenFlow13'',
      AddSwitch ''s2'' OVSKernelSwitch ''OpenFlow13'',
      AddSwitch ''s3'' OVSKernelSwitch ''OpenFlow13'',
      AddSwitch ''s4'' OVSKernelSwitch ''OpenFlow13'',
      AddSwitch ''s5'' OVSKernelSwitch ''OpenFlow13'',
      AddHost ''h1'' ''10.0.0.1/24'' ''00:00:00:00:00:01'',
      AddHost ''h2'' ''10.0.0.2/24'' ''00:00:00:00:00:02'',
      AddHost ''h3'' ''10.0.0.3/24'' ''00:00:00:00:00:03'',
      AddHost ''h4'' ''10.0.0.4/24'' ''00:00:00:00:00:04'',
      AddHost ''h5'' ''10.0.0.5/24'' ''00:00:00:00:00:05'',
      AddLink (Node ''h1'') (Node ''s1'') TCLink 100 ''5ms'',
      AddLink (Node ''h2'') (Node ''s2'') TCLink 100 ''5ms'',
      AddLink (Node ''h3'') (Node ''s3'') TCLink 100 ''5ms'',
      AddLink (Node ''h4'') (Node ''s4'') TCLink 100 ''5ms'',
      AddLink (Node ''h5'') (Node ''s5'') TCLink 100 ''5ms'',
      AddLink (Node ''s1'') (Node ''s2'') TCLink 100 ''10ms'',
      AddLink (Node ''s1'') (Node ''s3'') TCLink 100 ''10ms'',
      AddLink (Node ''s1'') (Node ''s4'') TCLink 100 ''10ms'',
      AddLink (Node ''s2'') (Node ''s3'') TCLink 100 ''10ms'',
      AddLink (Node ''s2'') (Node ''s4'') TCLink 100 ''10ms'',
      AddLink (Node ''s3'') (Node ''s4'') TCLink 100 ''10ms'',
      AddLink (Node ''s3'') (Node ''s5'') TCLink 100 ''10ms'',
      Start, WaitConnected None, PingAll, CLIRun, Stop])" for k a
    by (rule distinct_take) simp
  then show "distinct (api_calls (calls (createTopology env lib)))"
    by (simp only: api_calls_createTopology)
qed

theorem createTopology_ignores_probe_witness:
  "createTopology Map.empty (all_up\<lparr>ping_lost := 20\<rparr>) = createTopology Map.empty all_up \<and>
   (\<exists>before after.
      api_calls (calls (createTopology Map.empty all_up)) = before @ [PingAll, CLIRun] @ after)"
proof -
  have "PingAll \<in> set (api_calls (calls (createTopology Map.empty all_up)))"
    by (simp add: api_calls_createTopology all_up_returns all_up_exits)
  then have "PingAll \<in> set (calls (createTopology Map.empty all_up))"
    by (simp add: api_calls_def)
  with createTopology_ignores_probe [where env = Map.empty and lib = all_up and n = 20] show ?thesis
    by simp
qed

text \<open>
  C5: every link has bandwidth 100; a link from a host to a switch has delay 5ms, and
  every other link joins two switches and has delay 10ms. There are 5 links of the first
  kind and 7 of the second.
\<close>

theorem createTopology_link_parameters:
  "list_all
     (\<lambda>(node1, node2, cls, bw, delay).
        bw = 100 \<and>
        (if is_host (calls (createTopology env lib)) node1 \<and>
            is_switch (calls (createTopology env lib)) node2
         then delay = ''5ms''
         else is_switch (calls (createTopology env lib)) node1 \<and>
              is_switch (calls (createTopology env lib)) node2 \<and> delay = ''10ms''))
     (links (calls (createTopology env lib))) \<and>
   length (filter (\<lambda>l. is_host (calls (createTopology env lib)) (fst l))
     (links (calls (createTopology env lib)))) = 5 \<and>
   length (filter (\<lambda>l. is_switch (calls (createTopology env lib)) (fst l))
     (links (calls (createTopology env lib)))) = 7"
  by (simp add: links_createTopology is_host_def is_switch_def hosts_createTopology
      switches_createTopology)

text \<open>
  C6: for N from 1 to 5, host hN is created once, with the IP address 10.0.0.N/24 and
  the MAC address 00:00:00:00:00:0N.
\<close>

theorem createTopology_host_addresses:
  "host_params ''h1'' (calls (createTopology env lib)) = [(''10.0.0.1/24'', ''00:00:00:00:00:01'')] \<and>
   host_params ''h2'' (calls (createTopology env lib)) = [(''10.0.0.2/24'', ''00:00:00:00:00:02'')] \<and>
   host_params ''h3'' (calls (createTopology env lib)) = [(''10.0.0.3/24'', ''00:00:00:00:00:03'')] \<and>
   host_params ''h4'' (calls (createTopology env lib)) = [(''10.0.0.4/24'', ''00:00:00:00:00:04'')] \<and>
   host_params ''h5'' (calls (createTopology env lib)) = [(''10.0.0.5/24'', ''00:00:00:00:00:05'')]"
  by (simp add: host_params_def hosts_createTopology)

text \<open>
  C7: the switches created are s1, s2, s3, s4, s5 and the hosts created are h1, h2, h3,
  h4, h5, five of each and no other; every switch is created with the protocols
  argument \<^verbatim>\<open>OpenFlow13\<close>.
\<close>

theorem createTopology_nodes:
  "map fst (switches (calls (createTopology env lib))) = [''s1'', ''s2'', ''s3'', ''s4'', ''s5''] \<and>
   map fst (hosts (calls (createTopology env lib))) = [''h1'', ''h2'', ''h3'', ''h4'', ''h5''] \<and>
   length (switches (calls (createTopology env lib))) = 5 \<and>
   length (hosts (calls (createTopology env lib))) = 5 \<and>
   map (snd \<circ> snd) (switches (calls (createTopology env lib))) = replicate 5 ''OpenFlow13''"
  by (simp add: switches_createTopology hosts_createTopology eval_nat_numeral)

text \<open>
  C8: whenever a call of the run creates a link, both nodes it names were created by
  calls before it; and no two links of the run join the same unordered pair of nodes.
\<close>

theorem createTopology_links_join_created_nodes:
  "(\<forall>i < length (calls (createTopology env lib)). \<forall>node1 node2 cls bw delay.
      calls (createTopology env lib) ! i = AddLink node1 node2 cls bw delay \<longrightarrow>
      node1 \<in> set (created (take i (calls (createTopology env lib)))) \<and>
      node2 \<in> set (created (take i (calls (createTopology env lib))))) \<and>
   distinct (map unordered_pair (links (calls (createTopology env lib))))"
proof (intro conjI allI impI)
  fix i node1 node2 cls bw delay
  assume "i < length (calls (createTopology env lib))"
    and "calls (createTopology env lib) ! i = AddLink node1 node2 cls bw delay"
  with links_after_nodes_nth [OF links_after_nodes_createTopology]
  have "node1 \<in> set ([] @ created (take i (calls (createTopology env lib)))) \<and>
        node2 \<in> set ([] @ created (take i (calls (createTopology env lib))))"
    by blast
  then show "node1 \<in> set (created (take i (calls (createTopology env lib))))"
    and "node2 \<in> set (created (take i (calls (createTopology env lib))))"
    by simp_all
next
  show "distinct (map unordered_pair (links (calls (createTopology env lib))))"
    by (simp add: links_createTopology unordered_pair_def doubleton_eq_iff)
qed

theorem createTopology_links_join_created_nodes_witness:
  "Node ''h1'' \<in> set (created (take 18 (calls (createTopology Map.empty all_up)))) \<and>
   Node ''s1'' \<in> set (created (take 18 (calls (createTopology Map.empty all_up))))"
proof -
  have run: "18 < length (calls (createTopology Map.empty all_up))"
    "calls (createTopology Map.empty all_up) ! 18 =
      AddLink (Node ''h1'') (Node ''s1'') TCLink 100 ''5ms''"
    by (simp_all add: createTopology_run all_up_returns all_up_exits Let_def)
  with createTopology_links_join_created_nodes [of Map.empty all_up] show ?thesis
    by blast
qed

text \<open>
  C9: the operations of a run come in the order of the spec: read the controller
  address, construct the network, register the controller, create the switches, the
  hosts, the links, start the network, wait for the controller, probe, open the
  interactive session, stop the network. A run that returns has performed all of them,
  each kind in one stretch; a run that does not has performed a beginning of them; and
  the network is stopped only in a run whose interactive session has exited.
\<close>

theorem createTopology_order:
  "prefix (remdups_adj (operations (calls (createTopology env lib)))) build_and_run_order \<and>
   (outcome (createTopology env lib) = Returned \<longrightarrow>
      remdups_adj (operations (calls (createTopology env lib))) = build_and_run_order) \<and>
   (StopNetwork \<in> set (operations (calls (createTopology env lib))) \<longrightarrow>
      cli_exits lib \<and> outcome (createTopology env lib) = Returned \<and>
      last (operations (calls (createTopology env lib))) = StopNetwork)"
proof (cases rule: createTopology_cases[of lib])
  case wait_blocks
  then have "outcome (createTopology env lib) = Blocked"
    by (simp add: createTopology_run Let_def)
  with wait_blocks show ?thesis
    by (simp add: operations_createTopology build_and_run_order_def eval_nat_numeral)
next
  case (prompt_blocks b)
  then have "outcome (createTopology env lib) = Blocked"
    by (simp add: createTopology_run Let_def)
  with prompt_blocks show ?thesis
    by (simp add: operations_createTopology build_and_run_order_def eval_nat_numeral)
next
  case (returns b)
  then have "outcome (createTopology env lib) = Returned"
    by (simp add: createTopology_run Let_def)
  with returns show ?thesis
    by (simp add: operations_createTopology build_and_run_order_def eval_nat_numeral)
qed

theorem createTopology_order_witness:
  "remdups_adj (operations (calls (createTopology Map.empty all_up))) = build_and_run_order \<and>
   cli_exits all_up \<and>
   last (operations (calls (createTopology Map.empty all_up))) = StopNetwork"
proof -
  have "outcome (createTopology Map.empty all_up) = Returned"
    by (simp add: createTopology_run all_up_returns all_up_exits Let_def)
  moreover have "StopNetwork \<in> set (operations (calls (createTopology Map.empty all_up)))"
    by (simp add: operations_createTopology all_up_returns all_up_exits eval_nat_numeral)
  ultimately show ?thesis
    using createTopology_order [of Map.empty all_up] by blast
qed

text \<open>
  C10: the topology does not depend on the environment: any two runs, whatever their
  environments and outside worlds, create the same switches, the same hosts and the same
  links, with the same names, classes, protocols, IP and MAC addresses, bandwidths and
  delays, and register one controller under the same name, class and port. The variable
  \<^verbatim>\<open>ONOS_IP\<close> decides the IP field of that registration and no other argument of
  any call into the network: with that field left out, two runs in the same outside
  world make the same calls (logging apart) and end the same way.
\<close>

theorem createTopology_address_influence:
  "switches (calls (createTopology env1 lib1)) = switches (calls (createTopology env2 lib2)) \<and>
   hosts (calls (createTopology env1 lib1)) = hosts (calls (createTopology env2 lib2)) \<and>
   links (calls (createTopology env1 lib1)) = links (calls (createTopology env2 lib2)) \<and>
   map (\<lambda>(name, cls, ip, port). (name, cls, port)) (controllers (calls (createTopology env1 lib1))) =
   map (\<lambda>(name, cls, ip, port). (name, cls, port)) (controllers (calls (createTopology env2 lib2))) \<and>
   map (\<lambda>(name, cls, ip, port). ip) (controllers (calls (createTopology env1 lib1))) =
     [controller_address env1] \<and>
   map mask_controller_ip (api_calls (calls (createTopology env1 lib))) =
   map mask_controller_ip (api_calls (calls (createTopology env2 lib))) \<and>
   outcome (createTopology env1 lib) = outcome (createTopology env2 lib)"
proof (intro conjI)
  show "map mask_controller_ip (api_calls (calls (createTopology env1 lib))) =
      map mask_controller_ip (api_calls (calls (createTopology env2 lib)))"
    unfolding api_calls_createTopology take_map [symmetric] by simp
next
  show "outcome (createTopology env1 lib) = outcome (createTopology env2 lib)"
    by (cases rule: createTopology_cases[of lib]) (simp_all add: createTopology_run Let_def)
qed (simp_all add: switches_createTopology hosts_createTopology links_createTopology
    controllers_createTopology controller_address_def environ_get_def)

end
